theory Spec2Isabelle
  imports Main "HOL-Library.Word"
begin

unbundle bit_operations_syntax

section \<open>Go values\<close>

text \<open>
  A Go \<^verbatim>\<open>byte\<close> is an 8-bit value and a Go \<^verbatim>\<open>string\<close> is a sequence of bytes;
  HOL's \<^typ>\<open>char\<close> is an 8-bit value too, so a Go string is a \<^typ>\<open>string\<close> and the
  conversions \<^verbatim>\<open>string(b)\<close> and \<^verbatim>\<open>[]byte(s)\<close> copy the bytes unchanged.
  A byte slice may be \<^verbatim>\<open>nil\<close>: it is an option, \<open>None\<close> being the nil slice.
  An \<^verbatim>\<open>error\<close> result is an option as well, \<open>None\<close> being the nil error.
\<close>

type_synonym byte = char
type_synonym slice = "byte list option"

text \<open>\<^verbatim>\<open>string(b)\<close>: the nil slice and the empty slice both give the empty string.\<close>

definition string_of_slice :: "slice \<Rightarrow> string" where
  "string_of_slice b = (case b of None \<Rightarrow> [] | Some bs \<Rightarrow> bs)"

text \<open>\<^verbatim>\<open>[]byte(s)\<close>: always a non-nil slice.\<close>

definition slice_of_string :: "string \<Rightarrow> slice" where
  "slice_of_string s = Some s"

text \<open>
  An error value is either one that a library function returned (of the library's own
  error type \<open>'e\<close>) or one that the code builds from a message with \<^verbatim>\<open>errors.New\<close> or
  \<^verbatim>\<open>fmt.Errorf\<close>.
\<close>

datatype 'e error = LibError 'e | ErrorString string

section \<open>The gRPC listener configuration (rpc/grpc/config.go)\<close>

text \<open>
  \<^verbatim>\<open>time.Duration\<close> is a signed 64-bit count of nanoseconds; \<^verbatim>\<open>uint32\<close> fields are
  32-bit words. Go's \<^verbatim>\<open>int\<close> fields take part in no arithmetic here and are integers.
\<close>

type_synonym Duration = "64 word"

definition Second :: Duration where
  "Second = 1000000000"

record Config =
  Endpoint :: string
  Permission :: int
  ForceSocketRemoval :: bool
  Network :: string
  MaxMsgSize :: int
  MaxConcurrentStreams :: "32 word"
  InsecureTransport :: bool
  Certfile :: string
  Keyfile :: string
  CAfiles :: "string list"
  ExtendedLogging :: bool
  PrometheusMetrics :: bool
  KeepaliveEnable :: bool
  KeepaliveClientPingMinTime :: "32 word"
  KeepalivePermitWithoutStream :: bool
  KeepaliveIdlePingInterval :: "32 word"
  KeepalivePingTimeout :: "32 word"
  KeepaliveMaxConnectionAge :: "32 word"
  KeepaliveMaxConnectionIdle :: "32 word"

text \<open>\<^verbatim>\<open>keepalive.EnforcementPolicy\<close> and \<^verbatim>\<open>keepalive.ServerParameters\<close>.\<close>

record EnforcementPolicy =
  MinTime :: Duration
  PermitWithoutStream :: bool

record ServerParameters =
  MaxConnectionIdle :: Duration
  MaxConnectionAge :: Duration
  MaxConnectionAgeGrace :: Duration
  Time :: Duration
  Timeout :: Duration

text \<open>The server options that \<^verbatim>\<open>getGrpcOptions\<close> can emit, one constructor for each
  \<^verbatim>\<open>grpc.*\<close> option function it calls.\<close>

datatype ServerOption =
    grpc_MaxConcurrentStreams "32 word"
  | grpc_MaxRecvMsgSize int
  | grpc_KeepaliveEnforcementPolicy EnforcementPolicy
  | grpc_KeepaliveParams ServerParameters

definition getGrpcOptions :: "Config \<Rightarrow> ServerOption list" where
  "getGrpcOptions cfg =
    (let opts = [];
         opts = (if 0 < MaxConcurrentStreams cfg
                 then opts @ [grpc_MaxConcurrentStreams (MaxConcurrentStreams cfg)] else opts);
         opts = (if 0 < MaxMsgSize cfg
                 then opts @ [grpc_MaxRecvMsgSize (MaxMsgSize cfg)] else opts)
     in if KeepaliveEnable cfg then
          (let kaep = \<lparr>MinTime = 20 * Second, PermitWithoutStream = False\<rparr>;
               kasp = \<lparr>MaxConnectionIdle = 0, MaxConnectionAge = 0, MaxConnectionAgeGrace = 0,
                       Time = 7200 * Second, Timeout = 20 * Second\<rparr>;
               kaep = (if 0 < KeepaliveClientPingMinTime cfg
                       then kaep\<lparr>MinTime := ucast (KeepaliveClientPingMinTime cfg) * Second\<rparr>
                       else kaep);
               kaep = (if KeepalivePermitWithoutStream cfg
                       then kaep\<lparr>PermitWithoutStream := KeepalivePermitWithoutStream cfg\<rparr>
                       else kaep);
               kasp = (if 0 < KeepalivePingTimeout cfg
                       then kasp\<lparr>Timeout := ucast (KeepalivePingTimeout cfg) * Second\<rparr>
                       else kasp);
               kasp = (if 0 < KeepaliveIdlePingInterval cfg
                       then kasp\<lparr>Time := ucast (KeepaliveIdlePingInterval cfg) * Second\<rparr>
                       else kasp);
               kasp = (if 0 < KeepaliveMaxConnectionAge cfg
                       then kasp\<lparr>MaxConnectionAge :=
                              ucast (KeepaliveMaxConnectionAge cfg) * Second\<rparr>
                       else kasp);
               kasp = (if 0 < KeepaliveMaxConnectionIdle cfg
                       then kasp\<lparr>MaxConnectionIdle :=
                              ucast (KeepaliveMaxConnectionIdle cfg) * Second\<rparr>
                       else kasp)
           in opts @ [grpc_KeepaliveEnforcementPolicy kaep, grpc_KeepaliveParams kasp])
        else opts)"

definition getSocketType :: "Config \<Rightarrow> string" where
  "getSocketType cfg = (if Network cfg = [] then ''tcp'' else Network cfg)"

subsection \<open>Port extraction\<close>

text \<open>
  \<^verbatim>\<open>GetPort\<close> calls two functions of Go's standard library, which are modelled here by
  their documented behaviour. \<^verbatim>\<open>strings.LastIndex(s, substr)\<close> is the index of the last
  instance of \<open>substr\<close> in \<open>s\<close>, or -1 when there is none.
\<close>

definition LastIndex :: "string \<Rightarrow> string \<Rightarrow> int" where
  "LastIndex s substr =
    (case filter (\<lambda>i. take (length substr) (drop i s) = substr) (rev [0..<Suc (length s)]) of
       [] \<Rightarrow> - 1
     | i # _ \<Rightarrow> int i)"

text \<open>
  \<^verbatim>\<open>strconv.Atoi(s)\<close> on a platform with 64-bit \<^verbatim>\<open>int\<close>: an optional sign, then
  at least one decimal digit and nothing else; a syntax error otherwise, and a range error
  (with the nearest representable value) when the number does not fit 64 signed bits.
\<close>

datatype NumError = ErrSyntax | ErrRange

definition isDigit :: "char \<Rightarrow> bool" where
  "isDigit c = (48 \<le> (of_char c :: nat) \<and> (of_char c :: nat) \<le> 57)"

definition digitsValue :: "string \<Rightarrow> int" where
  "digitsValue ds = foldl (\<lambda>n ch. n * 10 + (of_char ch - 48)) 0 ds"

definition Atoi :: "string \<Rightarrow> int \<times> NumError option" where
  "Atoi s =
    (if s = [] then (0, Some ErrSyntax)
     else
       let neg = (hd s = CHR ''-'');
           ds = (if hd s = CHR ''-'' \<or> hd s = CHR ''+'' then tl s else s)
       in if ds = [] \<or> \<not> list_all isDigit ds then (0, Some ErrSyntax)
          else
            let n = digitsValue ds
            in if neg then (if 2 ^ 63 < n then (- (2 ^ 63), Some ErrRange) else (- n, None))
               else (if 2 ^ 63 \<le> n then (2 ^ 63 - 1, Some ErrRange) else (n, None)))"

text \<open>\<^verbatim>\<open>cfg.Endpoint[index+1:]\<close> is \<open>drop (index + 1)\<close>: the index is below the length
  whenever it is not negative, so the slice expression never panics.\<close>

definition GetPort :: "Config \<Rightarrow> int" where
  "GetPort cfg =
    (if Endpoint cfg \<noteq> [] \<and> Endpoint cfg \<noteq> '':'' then
       (let index = LastIndex (Endpoint cfg) '':''
        in if 0 \<le> index then
             (case Atoi (drop (nat (index + 1)) (Endpoint cfg)) of
                (port, None) \<Rightarrow> port
              | (port, Some err) \<Rightarrow> 0)
           else 0)
     else 0)"

subsection \<open>TLS material\<close>

text \<open>
  \<^verbatim>\<open>getTLS\<close> reads files and parses certificates through Go's standard library. Those
  functions are parameters of the model: the certificate type \<open>'cert\<close>, the certificate
  pool type \<open>'pool\<close> and the library's error type \<open>'e\<close> are left open.
  \<^verbatim>\<open>AppendCertsFromPEM\<close> mutates the pool it is called on, so it returns the new pool
  next to its boolean result.
\<close>

record ('cert, 'pool, 'e) tls_library =
  LoadX509KeyPair :: "string \<Rightarrow> string \<Rightarrow> 'cert \<times> 'e option"
  ReadFile :: "string \<Rightarrow> slice \<times> 'e option"
  NewCertPool :: "'pool"
  AppendCertsFromPEM :: "'pool \<Rightarrow> slice \<Rightarrow> 'pool \<times> bool"

text \<open>\<^verbatim>\<open>tls.ClientAuthType\<close>, in the order of its constants; the first is the zero value.\<close>

datatype ClientAuthType =
    NoClientCert
  | RequestClientCert
  | RequireAnyClientCert
  | VerifyClientCertIfGiven
  | RequireAndVerifyClientCert

text \<open>The fields of \<^verbatim>\<open>tls.Config\<close> that \<^verbatim>\<open>getTLS\<close> sets; \<^verbatim>\<open>ClientCAs\<close> is a pointer,
  nil in the zero value.\<close>

record ('cert, 'pool) tls_Config =
  MinVersion :: "16 word"
  Certificates :: "'cert list"
  ClientCAs :: "'pool option"
  ClientAuth :: ClientAuthType

definition VersionTLS12 :: "16 word" where
  "VersionTLS12 = 0x0303"

text \<open>The loop over \<^verbatim>\<open>cfg.CAfiles\<close>: \<open>Inl\<close> is the error of an early return, \<open>Inr\<close> the
  pool after the last file.\<close>

fun getTLS_CAfiles ::
  "('cert, 'pool, 'e) tls_library \<Rightarrow> 'pool \<Rightarrow> string list \<Rightarrow> 'e error + 'pool" where
  "getTLS_CAfiles lib caCertPool [] = Inr caCertPool"
| "getTLS_CAfiles lib caCertPool (c # cs) =
    (case ReadFile lib c of
       (cert, Some err) \<Rightarrow> Inl (LibError err)
     | (cert, None) \<Rightarrow>
         (case AppendCertsFromPEM lib caCertPool cert of
            (caCertPool', ok) \<Rightarrow>
              if \<not> ok
              then Inl (ErrorString (''failed to add CA from '' @ [CHR 0x27] @ c @ [CHR 0x27]
                                      @ '' file''))
              else getTLS_CAfiles lib caCertPool' cs))"

definition getTLS ::
  "('cert, 'pool, 'e) tls_library \<Rightarrow> Config \<Rightarrow> ('cert, 'pool) tls_Config option \<times> 'e error option"
  where
  "getTLS lib cfg =
    (if InsecureTransport cfg then (None, None)
     else if Certfile cfg = [] \<and> Keyfile cfg = [] then (None, None)
     else
       (case LoadX509KeyPair lib (Certfile cfg) (Keyfile cfg) of
          (cert, Some err) \<Rightarrow> (None, Some (LibError err))
        | (cert, None) \<Rightarrow>
            (let tc = \<lparr>MinVersion = VersionTLS12, Certificates = [cert],
                       ClientCAs = None, ClientAuth = NoClientCert\<rparr>
             in if 0 < length (CAfiles cfg) then
                  (case getTLS_CAfiles lib (NewCertPool lib) (CAfiles cfg) of
                     Inl err \<Rightarrow> (None, Some err)
                   | Inr caCertPool \<Rightarrow>
                       (Some (tc\<lparr>ClientCAs := Some caCertPool,
                                 ClientAuth := RequireAndVerifyClientCert\<rparr>), None))
                else (Some tc, None))))"

section \<open>The cryptodata client\<close>

text \<open>
  \<^verbatim>\<open>EncryptData\<close> and \<^verbatim>\<open>DecryptData\<close> call \<^verbatim>\<open>rsa.EncryptOAEP\<close>,
  \<^verbatim>\<open>rsa.DecryptOAEP\<close> and the \<^verbatim>\<open>base64.URLEncoding\<close> codec of Go's standard
  library; they are parameters of the model. The two RSA functions draw on the random
  source and reset and feed the hash object that the client hands them, so they take and
  return the state \<open>'w\<close> of those two objects; the codec is pure.
\<close>

record ('h, 'rd, 'pub, 'priv, 'e, 'w) crypto_library =
  EncryptOAEP :: "'h \<Rightarrow> 'rd \<Rightarrow> 'pub \<Rightarrow> slice \<Rightarrow> slice \<Rightarrow> 'w \<Rightarrow> (slice \<times> 'e option) \<times> 'w"
  DecryptOAEP :: "'h \<Rightarrow> 'rd \<Rightarrow> 'priv \<Rightarrow> slice \<Rightarrow> slice \<Rightarrow> 'w \<Rightarrow> (slice \<times> 'e option) \<times> 'w"
  EncodeToString :: "slice \<Rightarrow> string"
  DecodeString :: "string \<Rightarrow> slice \<times> 'e option"

text \<open>\<^verbatim>\<open>Client\<close> embeds \<^verbatim>\<open>ClientConfig\<close> and has no field of its own.\<close>

record ('priv, 'rd, 'h) ClientConfig =
  PrivateKeys :: "'priv list"
  Reader :: 'rd
  Hash :: 'h

type_synonym ('priv, 'rd, 'h) Client = "('priv, 'rd, 'h) ClientConfig"

definition EncryptData ::
  "('h, 'rd, 'pub, 'priv, 'e, 'w) crypto_library \<Rightarrow> ('priv, 'rd, 'h) Client \<Rightarrow> slice \<Rightarrow> 'pub \<Rightarrow> 'w
     \<Rightarrow> (slice \<times> 'e error option) \<times> 'w" where
  "EncryptData lib client inData pub w =
    (case EncryptOAEP lib (Hash client) (Reader client) pub inData None w of
       ((data, err), w') \<Rightarrow>
         (let data = slice_of_string (EncodeToString lib data)
          in ((data, map_option LibError err), w')))"

text \<open>The loop over \<^verbatim>\<open>client.PrivateKeys\<close>, with the statement after it.\<close>

fun DecryptData_keys ::
  "('h, 'rd, 'pub, 'priv, 'e, 'w) crypto_library \<Rightarrow> ('priv, 'rd, 'h) Client \<Rightarrow> 'priv list \<Rightarrow> slice
     \<Rightarrow> 'w \<Rightarrow> (slice \<times> 'e error option) \<times> 'w" where
  "DecryptData_keys lib client [] inData w =
    ((None, Some (ErrorString ''failed to decrypt data due to no private key matching'')), w)"
| "DecryptData_keys lib client (key # keys) inData w =
    (case DecryptOAEP lib (Hash client) (Reader client) key inData None w of
       ((data, err), w') \<Rightarrow>
         if err = None then ((data, None), w')
         else DecryptData_keys lib client keys inData w')"

definition DecryptData ::
  "('h, 'rd, 'pub, 'priv, 'e, 'w) crypto_library \<Rightarrow> ('priv, 'rd, 'h) Client \<Rightarrow> slice \<Rightarrow> 'w
     \<Rightarrow> (slice \<times> 'e error option) \<times> 'w" where
  "DecryptData lib client inData w =
    (case DecodeString lib (string_of_slice inData) of
       (inData', Some err) \<Rightarrow> ((None, Some (LibError err)), w)
     | (inData', None) \<Rightarrow> DecryptData_keys lib client (PrivateKeys client) inData' w)"

section \<open>Sample inputs\<close>

text \<open>The zero value of \<^verbatim>\<open>Config\<close>; sample configurations are updates of it.\<close>

definition zeroConfig :: Config where
  "zeroConfig =
    \<lparr>Endpoint = [], Permission = 0, ForceSocketRemoval = False, Network = [], MaxMsgSize = 0,
     MaxConcurrentStreams = 0, InsecureTransport = False, Certfile = [], Keyfile = [],
     CAfiles = [], ExtendedLogging = False, PrometheusMetrics = False,
     KeepaliveEnable = False, KeepaliveClientPingMinTime = 0,
     KeepalivePermitWithoutStream = False, KeepaliveIdlePingInterval = 0,
     KeepalivePingTimeout = 0, KeepaliveMaxConnectionAge = 0,
     KeepaliveMaxConnectionIdle = 0\<rparr>"

text \<open>
  A small file system for \<^verbatim>\<open>getTLS\<close>: a key pair in \<open>server.crt\<close> and \<open>server.key\<close>,
  two CA bundles, and a file that holds no certificate. A certificate is the pair of the
  file names it was loaded from, a pool is the list of the bundles added to it, and reading
  a file that does not exist fails with an error that names the file.
\<close>

definition sampleFiles :: "(string \<times> string, string list, string) tls_library" where
  "sampleFiles =
    \<lparr>LoadX509KeyPair = (\<lambda>certFile keyFile.
        if certFile = ''server.crt'' \<and> keyFile = ''server.key''
        then ((certFile, keyFile), None)
        else (([], []), Some (''open '' @ (if certFile = ''server.crt'' then keyFile else certFile)
                               @ '': no such file or directory''))),
     ReadFile = (\<lambda>name.
        if name = ''ca1.pem'' then (Some ''CERTIFICATE one'', None)
        else if name = ''ca2.pem'' then (Some ''CERTIFICATE two'', None)
        else if name = ''notes.txt'' then (Some ''no certificate here'', None)
        else (None, Some (''open '' @ name @ '': no such file or directory''))),
     NewCertPool = [],
     AppendCertsFromPEM = (\<lambda>pool pem.
        if take 11 (string_of_slice pem) = ''CERTIFICATE''
        then (pool @ [string_of_slice pem], True) else (pool, False))\<rparr>"

text \<open>
  A small instance of the cryptographic library, enough to run the client on concrete
  data. A key is one byte and a key pair shares it; a ciphertext is the key byte followed
  by the message, and decryption under another key fails. The hash is given by its output
  size, the modulus has 16 bytes, and the state counts the calls that drew on the random
  source. The codec frames the data with a leading \<open>#\<close>.
\<close>

definition sampleCrypto :: "(nat, unit, char, char, string, nat) crypto_library" where
  "sampleCrypto =
    \<lparr>EncryptOAEP = (\<lambda>h r pub msg label w.
        if 16 - 2 * int h - 2 < int (length (string_of_slice msg))
        then ((None, Some ''message too long''), w)
        else ((Some (pub # string_of_slice msg), None), Suc w)),
     DecryptOAEP = (\<lambda>h r priv ciphertext label w.
        case string_of_slice ciphertext of
          [] \<Rightarrow> ((None, Some ''decryption error''), Suc w)
        | k # msg \<Rightarrow>
            if k = priv then ((Some msg, None), Suc w)
            else ((None, Some ''decryption error''), Suc w)),
     EncodeToString = (\<lambda>src. CHR ''#'' # string_of_slice src),
     DecodeString = (\<lambda>s.
        case s of
          [] \<Rightarrow> (Some [], Some ''illegal data at input byte 0'')
        | c # rest \<Rightarrow>
            if c = CHR ''#'' then (Some rest, None)
            else (Some [], Some ''illegal data at input byte 0''))\<rparr>"

definition sampleClient :: "(char, unit, nat) Client" where
  "sampleClient = \<lparr>PrivateKeys = [CHR ''A'', CHR ''B''], Reader = (), Hash = 2\<rparr>"

section \<open>Properties of the keepalive policy\<close>

text \<open>A \<^verbatim>\<open>uint32\<close> number of seconds converted to a \<^verbatim>\<open>time.Duration\<close> never wraps around:
  the largest product is below \<open>2 ^ 63\<close>.\<close>

lemma Duration_of_uint32:
  "sint (ucast (x::32 word) * Second :: 64 word) = uint x * 1000000000"
proof -
  have b: "uint x < 4294967296" using uint_bounded[of x] by simp
  have "(ucast x * Second :: 64 word) = word_of_int (uint x * 1000000000)"
    by (simp add: Second_def)
  moreover have "sint (word_of_int (uint x * 1000000000) :: 64 word) = uint x * 1000000000"
    unfolding sint_sbintrunc'
  proof (rule signed_take_bit_int_eq_self)
    have "- (2 ^ (LENGTH(64) - 1)) \<le> (0::int)" by simp
    also have "0 \<le> uint x * 1000000000" by simp
    finally show "- (2 ^ (LENGTH(64) - 1)) \<le> uint x * 1000000000" .
    show "uint x * 1000000000 < 2 ^ (LENGTH(64) - 1)" using b by simp
  qed
  ultimately show ?thesis by simp
qed

lemma Duration_of_seconds:
  "sint (20 * Second) = 20 * 1000000000" "sint (7200 * Second) = 7200 * 1000000000"
  by (simp_all add: Second_def)

lemma uint32_pos: "x \<noteq> 0 \<Longrightarrow> 0 < uint (x::32 word)"
  by (metis uint_0_iff uint_ge_0 order_less_le)

lemma getGrpcOptions_disabled:
  "\<not> KeepaliveEnable cfg \<Longrightarrow> getGrpcOptions cfg =
     (if 0 < MaxConcurrentStreams cfg then [grpc_MaxConcurrentStreams (MaxConcurrentStreams cfg)] else []) @
     (if 0 < MaxMsgSize cfg then [grpc_MaxRecvMsgSize (MaxMsgSize cfg)] else [])"
  by (simp add: getGrpcOptions_def Let_def)

lemma getGrpcOptions_enabled:
  "KeepaliveEnable cfg \<Longrightarrow> getGrpcOptions cfg =
     getGrpcOptions (cfg\<lparr>KeepaliveEnable := False\<rparr>) @
     [grpc_KeepaliveEnforcementPolicy
        \<lparr>MinTime = (if KeepaliveClientPingMinTime cfg = 0 then 20 * Second
                     else ucast (KeepaliveClientPingMinTime cfg) * Second),
         PermitWithoutStream = KeepalivePermitWithoutStream cfg\<rparr>,
      grpc_KeepaliveParams
        \<lparr>MaxConnectionIdle = ucast (KeepaliveMaxConnectionIdle cfg) * Second,
         MaxConnectionAge = ucast (KeepaliveMaxConnectionAge cfg) * Second,
         MaxConnectionAgeGrace = 0,
         Time = (if KeepaliveIdlePingInterval cfg = 0 then 7200 * Second
                  else ucast (KeepaliveIdlePingInterval cfg) * Second),
         Timeout = (if KeepalivePingTimeout cfg = 0 then 20 * Second
                  else ucast (KeepalivePingTimeout cfg) * Second)\<rparr>]"
  by (simp add: getGrpcOptions_def Let_def word_gt_0)

text \<open>
  Claim C8. With keepalive enabled, the options end with one enforcement policy and one
  set of server parameters, and each of their fields is decided by its own override alone:
  the minimum client-ping interval, the ping timeout and the idle ping interval are 20 s,
  20 s and 7200 s when their override is zero and the override in seconds otherwise, so
  all three are positive whatever the overrides are; the maximum connection age and idle
  time are their override in seconds (the unset value 0 when it is zero); and
  \<^verbatim>\<open>PermitWithoutStream\<close> is the configured flag.
\<close>

theorem keepalive_overrides:
  assumes "KeepaliveEnable cfg"
  shows "\<exists>kaep kasp.
    getGrpcOptions cfg = getGrpcOptions (cfg\<lparr>KeepaliveEnable := False\<rparr>) @
      [grpc_KeepaliveEnforcementPolicy kaep, grpc_KeepaliveParams kasp] \<and>
    sint (MinTime kaep) = (if KeepaliveClientPingMinTime cfg = 0 then 20
                           else uint (KeepaliveClientPingMinTime cfg)) * 1000000000 \<and>
    sint (Timeout kasp) = (if KeepalivePingTimeout cfg = 0 then 20
                           else uint (KeepalivePingTimeout cfg)) * 1000000000 \<and>
    sint (Time kasp) = (if KeepaliveIdlePingInterval cfg = 0 then 7200
                        else uint (KeepaliveIdlePingInterval cfg)) * 1000000000 \<and>
    sint (MaxConnectionAge kasp) = uint (KeepaliveMaxConnectionAge cfg) * 1000000000 \<and>
    sint (MaxConnectionIdle kasp) = uint (KeepaliveMaxConnectionIdle cfg) * 1000000000 \<and>
    MaxConnectionAgeGrace kasp = 0 \<and>
    PermitWithoutStream kaep = KeepalivePermitWithoutStream cfg \<and>
    0 < sint (MinTime kaep) \<and> 0 < sint (Timeout kasp) \<and> 0 < sint (Time kasp)"
proof -
  let ?kaep = "\<lparr>MinTime = (if KeepaliveClientPingMinTime cfg = 0 then 20 * Second
                     else ucast (KeepaliveClientPingMinTime cfg) * Second),
         PermitWithoutStream = KeepalivePermitWithoutStream cfg\<rparr>"
  let ?kasp = "\<lparr>MaxConnectionIdle = ucast (KeepaliveMaxConnectionIdle cfg) * Second,
         MaxConnectionAge = ucast (KeepaliveMaxConnectionAge cfg) * Second,
         MaxConnectionAgeGrace = 0,
         Time = (if KeepaliveIdlePingInterval cfg = 0 then 7200 * Second
                  else ucast (KeepaliveIdlePingInterval cfg) * Second),
         Timeout = (if KeepalivePingTimeout cfg = 0 then 20 * Second
                  else ucast (KeepalivePingTimeout cfg) * Second)\<rparr>"
  have opts: "getGrpcOptions cfg = getGrpcOptions (cfg\<lparr>KeepaliveEnable := False\<rparr>) @
      [grpc_KeepaliveEnforcementPolicy ?kaep, grpc_KeepaliveParams ?kasp]"
    using assms by (rule getGrpcOptions_enabled)
  have m: "sint (MinTime ?kaep) = (if KeepaliveClientPingMinTime cfg = 0 then 20
                           else uint (KeepaliveClientPingMinTime cfg)) * 1000000000"
    by (simp add: Duration_of_uint32 Duration_of_seconds)
  have t: "sint (Timeout ?kasp) = (if KeepalivePingTimeout cfg = 0 then 20
                           else uint (KeepalivePingTimeout cfg)) * 1000000000"
    by (simp add: Duration_of_uint32 Duration_of_seconds)
  have i: "sint (Time ?kasp) = (if KeepaliveIdlePingInterval cfg = 0 then 7200
                        else uint (KeepaliveIdlePingInterval cfg)) * 1000000000"
    by (simp add: Duration_of_uint32 Duration_of_seconds)
  have a: "sint (MaxConnectionAge ?kasp) = uint (KeepaliveMaxConnectionAge cfg) * 1000000000"
    by (simp add: Duration_of_uint32)
  have d: "sint (MaxConnectionIdle ?kasp) = uint (KeepaliveMaxConnectionIdle cfg) * 1000000000"
    by (simp add: Duration_of_uint32)
  have mp: "0 < sint (MinTime ?kaep)"
    unfolding m using uint32_pos[of "KeepaliveClientPingMinTime cfg"] by simp
  have tp: "0 < sint (Timeout ?kasp)"
    unfolding t using uint32_pos[of "KeepalivePingTimeout cfg"] by simp
  have ip: "0 < sint (Time ?kasp)"
    unfolding i using uint32_pos[of "KeepaliveIdlePingInterval cfg"] by simp
  have g: "MaxConnectionAgeGrace ?kasp = 0" by simp
  have p: "PermitWithoutStream ?kaep = KeepalivePermitWithoutStream cfg" by simp
  from opts m t i a d g p mp tp ip show ?thesis by blast
qed

theorem keepalive_overrides_witness:
  "KeepaliveEnable (zeroConfig\<lparr>KeepaliveEnable := True, KeepalivePingTimeout := 3\<rparr>) \<and>
   getGrpcOptions (zeroConfig\<lparr>KeepaliveEnable := True, KeepalivePingTimeout := 3\<rparr>) =
     [grpc_KeepaliveEnforcementPolicy \<lparr>MinTime = 20000000000, PermitWithoutStream = False\<rparr>,
      grpc_KeepaliveParams \<lparr>MaxConnectionIdle = 0, MaxConnectionAge = 0,
        MaxConnectionAgeGrace = 0, Time = 7200000000000, Timeout = 3000000000\<rparr>] \<and>
   (\<exists>kaep kasp.
      getGrpcOptions (zeroConfig\<lparr>KeepaliveEnable := True, KeepalivePingTimeout := 3\<rparr>) =
        [grpc_KeepaliveEnforcementPolicy kaep, grpc_KeepaliveParams kasp] \<and>
      sint (MinTime kaep) = 20000000000 \<and> sint (Timeout kasp) = 3000000000 \<and>
      sint (Time kasp) = 7200000000000)"
proof -
  let ?cfg = "zeroConfig\<lparr>KeepaliveEnable := True, KeepalivePingTimeout := 3\<rparr>"
  have en: "KeepaliveEnable ?cfg" by simp
  have off: "getGrpcOptions (?cfg\<lparr>KeepaliveEnable := False\<rparr>) = []"
    by (simp add: getGrpcOptions_def zeroConfig_def)
  have val: "getGrpcOptions ?cfg =
     [grpc_KeepaliveEnforcementPolicy \<lparr>MinTime = 20000000000, PermitWithoutStream = False\<rparr>,
      grpc_KeepaliveParams \<lparr>MaxConnectionIdle = 0, MaxConnectionAge = 0,
        MaxConnectionAgeGrace = 0, Time = 7200000000000, Timeout = 3000000000\<rparr>]"
    by (simp add: getGrpcOptions_def zeroConfig_def Second_def)
  from keepalive_overrides[OF en] obtain kaep kasp where
    k: "getGrpcOptions ?cfg = getGrpcOptions (?cfg\<lparr>KeepaliveEnable := False\<rparr>) @
          [grpc_KeepaliveEnforcementPolicy kaep, grpc_KeepaliveParams kasp]"
    and m: "sint (MinTime kaep) = (if KeepaliveClientPingMinTime ?cfg = 0 then 20
              else uint (KeepaliveClientPingMinTime ?cfg)) * 1000000000"
    and t: "sint (Timeout kasp) = (if KeepalivePingTimeout ?cfg = 0 then 20
              else uint (KeepalivePingTimeout ?cfg)) * 1000000000"
    and i: "sint (Time kasp) = (if KeepaliveIdlePingInterval ?cfg = 0 then 7200
              else uint (KeepaliveIdlePingInterval ?cfg)) * 1000000000"
    by blast
  have k': "getGrpcOptions ?cfg =
      [grpc_KeepaliveEnforcementPolicy kaep, grpc_KeepaliveParams kasp]"
    using k unfolding off by simp
  have m': "sint (MinTime kaep) = 20000000000" using m by (simp add: zeroConfig_def)
  have t': "sint (Timeout kasp) = 3000000000" using t by (simp add: zeroConfig_def)
  have i': "sint (Time kasp) = 7200000000000" using i by (simp add: zeroConfig_def)
  from en val k' m' t' i' show ?thesis by blast
qed

text \<open>
  Claim C10. With keepalive disabled, no enforcement policy and no server parameters are
  among the options, and the options are the same whatever the six keepalive override
  fields hold.
\<close>

theorem keepalive_disabled:
  assumes "\<not> KeepaliveEnable cfg"
  shows "(\<forall>kaep. grpc_KeepaliveEnforcementPolicy kaep \<notin> set (getGrpcOptions cfg)) \<and>
         (\<forall>kasp. grpc_KeepaliveParams kasp \<notin> set (getGrpcOptions cfg)) \<and>
         (\<forall>a b c d e f.
            getGrpcOptions (cfg\<lparr>KeepaliveClientPingMinTime := a,
                                 KeepalivePermitWithoutStream := b,
                                 KeepaliveIdlePingInterval := c,
                                 KeepalivePingTimeout := d,
                                 KeepaliveMaxConnectionAge := e,
                                 KeepaliveMaxConnectionIdle := f\<rparr>) = getGrpcOptions cfg)"
  using assms by (simp add: getGrpcOptions_disabled)

theorem keepalive_disabled_witness:
  "\<not> KeepaliveEnable (zeroConfig\<lparr>MaxMsgSize := 4096\<rparr>) \<and>
   getGrpcOptions (zeroConfig\<lparr>MaxMsgSize := 4096, KeepaliveClientPingMinTime := 5,
       KeepalivePermitWithoutStream := True, KeepaliveIdlePingInterval := 6,
       KeepalivePingTimeout := 7, KeepaliveMaxConnectionAge := 8,
       KeepaliveMaxConnectionIdle := 9\<rparr>) = [grpc_MaxRecvMsgSize 4096]"
proof -
  let ?cfg = "zeroConfig\<lparr>MaxMsgSize := 4096\<rparr>"
  have off: "\<not> KeepaliveEnable ?cfg" by (simp add: zeroConfig_def)
  have base: "getGrpcOptions ?cfg = [grpc_MaxRecvMsgSize 4096]"
    by (simp add: getGrpcOptions_def zeroConfig_def)
  have "getGrpcOptions (?cfg\<lparr>KeepaliveClientPingMinTime := 5,
       KeepalivePermitWithoutStream := True, KeepaliveIdlePingInterval := 6,
       KeepalivePingTimeout := 7, KeepaliveMaxConnectionAge := 8,
       KeepaliveMaxConnectionIdle := 9\<rparr>) = getGrpcOptions ?cfg"
    using keepalive_disabled[OF off] by blast
  with off base show ?thesis by simp
qed

section \<open>Properties of the port extraction\<close>

text \<open>\<^verbatim>\<open>strings.LastIndex\<close> with a separator of one byte: the position of its last
  occurrence, and -1 when the byte does not occur.\<close>

lemma take1_drop_eq:
  "(take (Suc 0) (drop i s) = [c]) = (i < length s \<and> s ! i = c)"
proof (cases "i < length s")
  case True
  then have "drop i s = s ! i # drop (Suc i) s" by (simp add: Cons_nth_drop_Suc)
  then show ?thesis using True by simp
next
  case False
  then show ?thesis by simp
qed

lemma nth_after:
  assumes "Suc (length pre) \<le> i" "i < length (pre @ c # suf)"
  shows "(pre @ c # suf) ! i \<in> set suf"
proof -
  have "(pre @ c # suf) ! i = (c # suf) ! (i - length pre)"
    using assms by (simp add: nth_append)
  also have "\<dots> = suf ! (i - Suc (length pre))"
    using assms by (simp add: nth_Cons')
  finally show ?thesis using assms by simp
qed

lemma filter_after_empty:
  assumes "c \<notin> set suf"
  shows "filter (\<lambda>i. take (Suc 0) (drop i (pre @ c # suf)) = [c])
           [Suc (length pre)..<Suc (length (pre @ c # suf))] = []"
proof -
  have h: "\<not> (i < length (pre @ c # suf) \<and> (pre @ c # suf) ! i = c)"
    if "Suc (length pre) \<le> i" for i
    using nth_after[OF that, of c suf] assms by auto
  have "\<forall>i\<in>set [Suc (length pre)..<Suc (length (pre @ c # suf))].
      \<not> (i < length (pre @ c # suf) \<and> (pre @ c # suf) ! i = c)"
  proof (intro ballI)
    fix i
    assume "i \<in> set [Suc (length pre)..<Suc (length (pre @ c # suf))]"
    then have "Suc (length pre) \<le> i" by (simp only: set_upt atLeastLessThan_iff)
    then show "\<not> (i < length (pre @ c # suf) \<and> (pre @ c # suf) ! i = c)" by (rule h)
  qed
  then show ?thesis
    unfolding filter_empty_conv take1_drop_eq .
qed

lemma upt_split3:
  "k \<le> n \<Longrightarrow> [0..<Suc n] = [0..<k] @ k # [Suc k..<Suc n]"
proof -
  assume "k \<le> n"
  then have "[0..<Suc n] = [0..<k] @ [k..<Suc n]"
    using upt_add_eq_append[of 0 k "Suc n - k"] by simp
  moreover have "[k..<Suc n] = k # [Suc k..<Suc n]"
    using \<open>k \<le> n\<close> by (simp add: upt_conv_Cons del: upt_Suc)
  ultimately show ?thesis by simp
qed

lemma LastIndex_last:
  assumes "c \<notin> set suf"
  shows "LastIndex (pre @ c # suf) [c] = int (length pre)"
proof -
  let ?s = "pre @ c # suf"
  let ?P = "\<lambda>i. take (Suc 0) (drop i ?s) = [c]"
  have split: "[0..<Suc (length ?s)] =
      [0..<length pre] @ length pre # [Suc (length pre)..<Suc (length ?s)]"
    by (rule upt_split3) simp
  have here: "?P (length pre)" by simp
  have "filter ?P [0..<Suc (length ?s)] = filter ?P [0..<length pre] @ [length pre]"
    unfolding split filter_append filter.simps filter_after_empty[OF assms]
    using here by simp
  then have "filter ?P (rev [0..<Suc (length ?s)]) =
      length pre # rev (filter ?P [0..<length pre])"
    unfolding rev_filter[symmetric] by simp
  then show ?thesis unfolding LastIndex_def by simp
qed

lemma LastIndex_absent:
  assumes "c \<notin> set s"
  shows "LastIndex s [c] = - 1"
proof -
  have "\<not> (i < length s \<and> s ! i = c)" for i using assms by auto
  then have "filter (\<lambda>i. take (Suc 0) (drop i s) = [c]) (rev [0..<Suc (length s)]) = []"
    unfolding filter_empty_conv take1_drop_eq by simp
  then show ?thesis unfolding LastIndex_def by simp
qed


lemma GetPort_after_last_colon:
  assumes "Endpoint cfg = pre @ '':'' @ suf" "CHR '':'' \<notin> set suf"
  shows "GetPort cfg = (case Atoi suf of (port, None) \<Rightarrow> port | (port, Some err) \<Rightarrow> 0)"
proof (cases "Endpoint cfg = '':''")
  case True
  with assms have "suf = []" by (cases pre) simp_all
  with True show ?thesis by (simp add: GetPort_def Atoi_def)
next
  case False
  have idx: "LastIndex (Endpoint cfg) '':'' = int (length pre)"
    using LastIndex_last[OF assms(2), of pre] assms(1) by simp
  have ne: "Endpoint cfg \<noteq> []" using assms(1) by simp
  have "drop (nat (int (length pre) + 1)) (Endpoint cfg) = suf"
    using assms(1) by (simp add: nat_add_distrib)
  with False ne idx show ?thesis by (simp add: GetPort_def Let_def)
qed

lemma GetPort_no_colon:
  assumes "CHR '':'' \<notin> set (Endpoint cfg)"
  shows "GetPort cfg = 0"
  using LastIndex_absent[OF assms] by (simp add: GetPort_def Let_def)

lemma Atoi_9111: "Atoi ''9111'' = (9111, None)"
  by (simp add: Atoi_def isDigit_def digitsValue_def Let_def)

text \<open>
  Claim C9. When the endpoint is \<open>pre @ '':'' @ suf\<close> with no colon in \<open>suf\<close>, so that
  \<open>suf\<close> is the text after the last colon, \<^verbatim>\<open>GetPort\<close> is the integer that
  \<^verbatim>\<open>strconv.Atoi\<close> parses from \<open>suf\<close>, and 0 when \<^verbatim>\<open>Atoi\<close> returns an error; it is 0 when
  the endpoint has no colon. On \<open>0.0.0.0:9111\<close> it is 9111, on \<open>:\<close> and on the empty
  endpoint it is 0. The function has no error result.
\<close>

theorem GetPort_parses_suffix:
  "(\<forall>pre suf. Endpoint cfg = pre @ '':'' @ suf \<longrightarrow> CHR '':'' \<notin> set suf \<longrightarrow>
      GetPort cfg = (case Atoi suf of (port, None) \<Rightarrow> port | (port, Some err) \<Rightarrow> 0)) \<and>
   (CHR '':'' \<notin> set (Endpoint cfg) \<longrightarrow> GetPort cfg = 0) \<and>
   (Endpoint cfg = ''0.0.0.0:9111'' \<longrightarrow> GetPort cfg = 9111) \<and>
   (Endpoint cfg = '':'' \<longrightarrow> GetPort cfg = 0) \<and>
   (Endpoint cfg = [] \<longrightarrow> GetPort cfg = 0)"
proof (intro conjI allI impI)
  fix pre suf
  assume "Endpoint cfg = pre @ '':'' @ suf" "CHR '':'' \<notin> set suf"
  then show "GetPort cfg = (case Atoi suf of (port, None) \<Rightarrow> port | (port, Some err) \<Rightarrow> 0)"
    by (rule GetPort_after_last_colon)
next
  assume "CHR '':'' \<notin> set (Endpoint cfg)"
  then show "GetPort cfg = 0" by (rule GetPort_no_colon)
next
  assume e: "Endpoint cfg = ''0.0.0.0:9111''"
  have "GetPort cfg = (case Atoi ''9111'' of (port, None) \<Rightarrow> port | (port, Some err) \<Rightarrow> 0)"
    by (rule GetPort_after_last_colon[where pre = "''0.0.0.0''"]) (simp_all add: e)
  then show "GetPort cfg = 9111" by (simp add: Atoi_9111)
next
  assume "Endpoint cfg = '':''"
  then show "GetPort cfg = 0" by (simp add: GetPort_def)
next
  assume "Endpoint cfg = []"
  then show "GetPort cfg = 0" by (simp add: GetPort_def)
qed

theorem GetPort_parses_suffix_witness:
  "GetPort (zeroConfig\<lparr>Endpoint := ''[::1]:8080''\<rparr>) = 8080 \<and>
   GetPort (zeroConfig\<lparr>Endpoint := ''localhost:http''\<rparr>) = 0 \<and>
   GetPort (zeroConfig\<lparr>Endpoint := ''/run/agent.sock''\<rparr>) = 0 \<and>
   GetPort (zeroConfig\<lparr>Endpoint := ''0.0.0.0:9111''\<rparr>) = 9111 \<and>
   GetPort (zeroConfig\<lparr>Endpoint := '':''\<rparr>) = 0 \<and>
   GetPort (zeroConfig\<lparr>Endpoint := []\<rparr>) = 0"
proof -
  have a: "Atoi ''8080'' = (8080, None)"
    by (simp add: Atoi_def isDigit_def digitsValue_def Let_def)
  have b: "Atoi ''http'' = (0, Some ErrSyntax)"
    by (simp add: Atoi_def isDigit_def digitsValue_def Let_def)
  have 1: "GetPort (zeroConfig\<lparr>Endpoint := ''[::1]:8080''\<rparr>) = 8080"
    using GetPort_parses_suffix[of "zeroConfig\<lparr>Endpoint := ''[::1]:8080''\<rparr>",
        THEN conjunct1, rule_format, of "''[::1]''" "''8080''"] a by simp
  have 2: "GetPort (zeroConfig\<lparr>Endpoint := ''localhost:http''\<rparr>) = 0"
    using GetPort_parses_suffix[of "zeroConfig\<lparr>Endpoint := ''localhost:http''\<rparr>",
        THEN conjunct1, rule_format, of "''localhost''" "''http''"] b by simp
  have 3: "GetPort (zeroConfig\<lparr>Endpoint := ''/run/agent.sock''\<rparr>) = 0"
    using GetPort_parses_suffix[of "zeroConfig\<lparr>Endpoint := ''/run/agent.sock''\<rparr>"] by simp
  have 4: "GetPort (zeroConfig\<lparr>Endpoint := ''0.0.0.0:9111''\<rparr>) = 9111"
    using GetPort_parses_suffix[of "zeroConfig\<lparr>Endpoint := ''0.0.0.0:9111''\<rparr>"] by simp
  have 5: "GetPort (zeroConfig\<lparr>Endpoint := '':''\<rparr>) = 0"
    using GetPort_parses_suffix[of "zeroConfig\<lparr>Endpoint := '':''\<rparr>"] by simp
  have 6: "GetPort (zeroConfig\<lparr>Endpoint := []\<rparr>) = 0"
    using GetPort_parses_suffix[of "zeroConfig\<lparr>Endpoint := []\<rparr>"] by simp
  from 1 2 3 4 5 6 show ?thesis by simp
qed

section \<open>Properties of the TLS material\<close>





lemma getTLS_enabled:
  assumes "\<not> InsecureTransport cfg" "Certfile cfg \<noteq> [] \<or> Keyfile cfg \<noteq> []"
    and "LoadX509KeyPair lib (Certfile cfg) (Keyfile cfg) = (cert, None)"
  shows "getTLS lib cfg =
    (if CAfiles cfg = []
     then (Some \<lparr>MinVersion = VersionTLS12, Certificates = [cert],
                  ClientCAs = None, ClientAuth = NoClientCert\<rparr>, None)
     else (case getTLS_CAfiles lib (NewCertPool lib) (CAfiles cfg) of
             Inl err \<Rightarrow> (None, Some err)
           | Inr caCertPool \<Rightarrow>
               (Some \<lparr>MinVersion = VersionTLS12, Certificates = [cert],
                      ClientCAs = Some caCertPool,
                      ClientAuth = RequireAndVerifyClientCert\<rparr>, None)))"
  using assms by (auto simp: getTLS_def Let_def split: sum.splits)

text \<open>
  Claim C2, as amended. \<^verbatim>\<open>getTLS\<close> returns the nil configuration with the nil error
  exactly when \<^verbatim>\<open>InsecureTransport\<close> is set or both \<^verbatim>\<open>Certfile\<close> and \<^verbatim>\<open>Keyfile\<close> are
  empty; in every other case it returns either a configuration with the nil error or the
  nil configuration with an error.
\<close>

theorem getTLS_disabled_cases:
  "(getTLS lib cfg = (None, None) \<longleftrightarrow>
      InsecureTransport cfg \<or> (Certfile cfg = [] \<and> Keyfile cfg = [])) \<and>
   (\<not> InsecureTransport cfg \<and> (Certfile cfg \<noteq> [] \<or> Keyfile cfg \<noteq> []) \<longrightarrow>
      (\<exists>tc. getTLS lib cfg = (Some tc, None)) \<or> (\<exists>err. getTLS lib cfg = (None, Some err)))"
proof (cases "InsecureTransport cfg \<or> (Certfile cfg = [] \<and> Keyfile cfg = [])")
  case True
  then show ?thesis by (auto simp: getTLS_def)
next
  case False
  obtain cert err where l: "LoadX509KeyPair lib (Certfile cfg) (Keyfile cfg) = (cert, err)"
    by (cases "LoadX509KeyPair lib (Certfile cfg) (Keyfile cfg)")
  show ?thesis
  proof (cases err)
    case (Some e)
    with False l show ?thesis by (auto simp: getTLS_def)
  next
    case None
    with False l have "getTLS lib cfg =
      (if CAfiles cfg = []
       then (Some \<lparr>MinVersion = VersionTLS12, Certificates = [cert],
                  ClientCAs = None, ClientAuth = NoClientCert\<rparr>, None)
       else (case getTLS_CAfiles lib (NewCertPool lib) (CAfiles cfg) of
             Inl err \<Rightarrow> (None, Some err)
           | Inr caCertPool \<Rightarrow>
               (Some \<lparr>MinVersion = VersionTLS12, Certificates = [cert],
                      ClientCAs = Some caCertPool,
                      ClientAuth = RequireAndVerifyClientCert\<rparr>, None)))"
      by (intro getTLS_enabled) auto
    with False show ?thesis by (auto split: sum.splits)
  qed
qed

theorem getTLS_disabled_cases_witness:
  "getTLS sampleFiles (zeroConfig\<lparr>CAfiles := [''ca1.pem'']\<rparr>) = (None, None) \<and>
   getTLS sampleFiles (zeroConfig\<lparr>InsecureTransport := True, Certfile := ''server.crt'',
      Keyfile := ''server.key''\<rparr>) = (None, None) \<and>
   getTLS sampleFiles (zeroConfig\<lparr>Certfile := ''server.crt'', Keyfile := ''server.key''\<rparr>)
     \<noteq> (None, None) \<and>
   ((\<exists>tc. getTLS sampleFiles (zeroConfig\<lparr>Certfile := ''server.crt'',
        Keyfile := ''server.key''\<rparr>) = (Some tc, None)) \<or>
    (\<exists>err. getTLS sampleFiles (zeroConfig\<lparr>Certfile := ''server.crt'',
        Keyfile := ''server.key''\<rparr>) = (None, Some err)))"
  using getTLS_disabled_cases[of sampleFiles "zeroConfig\<lparr>CAfiles := [''ca1.pem'']\<rparr>"]
    getTLS_disabled_cases[of sampleFiles "zeroConfig\<lparr>InsecureTransport := True,
      Certfile := ''server.crt'', Keyfile := ''server.key''\<rparr>"]
    getTLS_disabled_cases[of sampleFiles "zeroConfig\<lparr>Certfile := ''server.crt'',
      Keyfile := ''server.key''\<rparr>"]
  by (simp add: zeroConfig_def)

text \<open>Claim C2 as it was stated fails: with \<^verbatim>\<open>InsecureTransport\<close> false and neither
  a certificate file nor a key file configured, \<^verbatim>\<open>getTLS\<close> returns the nil configuration
  and the nil error, even with a CA file configured.\<close>

theorem getTLS_silently_disabled:
  "\<not> InsecureTransport (zeroConfig\<lparr>CAfiles := [''ca1.pem'']\<rparr>) \<and>
   getTLS sampleFiles (zeroConfig\<lparr>CAfiles := [''ca1.pem'']\<rparr>) = (None, None)"
  by (simp add: getTLS_def zeroConfig_def)

text \<open>
  Claim C3. With \<^verbatim>\<open>InsecureTransport\<close> false, a certificate file set and the key file
  empty, \<^verbatim>\<open>getTLS\<close> hands both names to \<^verbatim>\<open>tls.LoadX509KeyPair\<close>; loading a key pair whose
  key file name is empty fails (no file has the empty name), and \<^verbatim>\<open>getTLS\<close> returns that
  error with the nil configuration.
\<close>

theorem getTLS_missing_keyfile:
  assumes "\<not> InsecureTransport cfg" "Certfile cfg \<noteq> []" "Keyfile cfg = []"
    and "snd (LoadX509KeyPair lib (Certfile cfg) []) = Some e"
  shows "getTLS lib cfg = (None, Some (LibError e))"
  using assms by (cases "LoadX509KeyPair lib (Certfile cfg) []") (simp add: getTLS_def)

theorem getTLS_missing_keyfile_witness:
  "\<not> InsecureTransport (zeroConfig\<lparr>Certfile := ''server.crt''\<rparr>) \<and>
   Certfile (zeroConfig\<lparr>Certfile := ''server.crt''\<rparr>) \<noteq> [] \<and>
   Keyfile (zeroConfig\<lparr>Certfile := ''server.crt''\<rparr>) = [] \<and>
   snd (LoadX509KeyPair sampleFiles (Certfile (zeroConfig\<lparr>Certfile := ''server.crt''\<rparr>)) [])
     = Some ''open : no such file or directory'' \<and>
   getTLS sampleFiles (zeroConfig\<lparr>Certfile := ''server.crt''\<rparr>)
     = (None, Some (LibError ''open : no such file or directory''))"
proof -
  let ?cfg = "zeroConfig\<lparr>Certfile := ''server.crt''\<rparr>"
  have 1: "\<not> InsecureTransport ?cfg" by (simp add: zeroConfig_def)
  have 2: "Certfile ?cfg \<noteq> []" by simp
  have 3: "Keyfile ?cfg = []" by (simp add: zeroConfig_def)
  have 4: "snd (LoadX509KeyPair sampleFiles (Certfile ?cfg) [])
     = Some ''open : no such file or directory''"
    by (simp add: sampleFiles_def)
  from 1 2 3 4 getTLS_missing_keyfile[OF 1 2 3 4] show ?thesis by simp
qed



section \<open>Properties of encryption and decryption\<close>

text \<open>The loop over the keyring: keys that fail are passed over, each attempt moving the
  state of the hash and the random source on; an error result carries no data; and data
  that is returned is what one key of the keyring decrypted.\<close>

lemma DecryptData_keys_all_fail:
  assumes "\<forall>k\<in>set keys. \<forall>w.
      snd (fst (DecryptOAEP lib (Hash client) (Reader client) k c None w)) \<noteq> None"
  shows "DecryptData_keys lib client keys c w =
    ((None, Some (ErrorString ''failed to decrypt data due to no private key matching'')),
     foldl (\<lambda>w k. snd (DecryptOAEP lib (Hash client) (Reader client) k c None w)) w keys)"
  using assms
proof (induction keys arbitrary: w)
  case Nil
  then show ?case by simp
next
  case (Cons k keys)
  obtain d e w' where r: "DecryptOAEP lib (Hash client) (Reader client) k c None w = ((d, e), w')"
    by (cases "DecryptOAEP lib (Hash client) (Reader client) k c None w") auto
  from Cons.prems r obtain y where "e = Some y" by (auto dest: spec[of _ w])
  with r Cons.IH[of w'] Cons.prems show ?case by simp
qed

lemma DecryptData_keys_skip:
  assumes "\<forall>k\<in>set as. \<forall>w.
      snd (fst (DecryptOAEP lib (Hash client) (Reader client) k c None w)) \<noteq> None"
  shows "DecryptData_keys lib client (as @ keys) c w =
    DecryptData_keys lib client keys c
      (foldl (\<lambda>w k. snd (DecryptOAEP lib (Hash client) (Reader client) k c None w)) w as)"
  using assms
proof (induction as arbitrary: w)
  case Nil
  then show ?case by simp
next
  case (Cons k as)
  obtain d e w' where r: "DecryptOAEP lib (Hash client) (Reader client) k c None w = ((d, e), w')"
    by (cases "DecryptOAEP lib (Hash client) (Reader client) k c None w") auto
  from Cons.prems r obtain y where "e = Some y" by (auto dest: spec[of _ w])
  with r Cons.IH[of w'] Cons.prems show ?case by simp
qed

lemma DecryptData_keys_error_nil:
  "snd (fst (DecryptData_keys lib client keys c w)) \<noteq> None \<Longrightarrow>
   fst (fst (DecryptData_keys lib client keys c w)) = None"
proof (induction keys arbitrary: w)
  case Nil
  then show ?case by simp
next
  case (Cons k keys)
  obtain d e w' where r: "DecryptOAEP lib (Hash client) (Reader client) k c None w = ((d, e), w')"
    by (cases "DecryptOAEP lib (Hash client) (Reader client) k c None w") auto
  show ?case
  proof (cases "e = None")
    case True
    with r Cons.prems show ?thesis by simp
  next
    case False
    then obtain y where "e = Some y" by auto
    with r Cons.prems Cons.IH[of w'] show ?thesis by simp
  qed
qed

lemma DecryptData_keys_origin:
  "DecryptData_keys lib client keys c w = ((d, None), w') \<Longrightarrow>
   \<exists>k\<in>set keys. \<exists>w0. DecryptOAEP lib (Hash client) (Reader client) k c None w0 = ((d, None), w')"
proof (induction keys arbitrary: w)
  case Nil
  then show ?case by simp
next
  case (Cons k keys)
  obtain d1 e w1 where r: "DecryptOAEP lib (Hash client) (Reader client) k c None w = ((d1, e), w1)"
    by (cases "DecryptOAEP lib (Hash client) (Reader client) k c None w") auto
  show ?case
  proof (cases "e = None")
    case True
    with r Cons.prems have "DecryptOAEP lib (Hash client) (Reader client) k c None w = ((d, None), w')"
      by simp
    then show ?thesis by auto
  next
    case False
    then obtain y where "e = Some y" by auto
    with r Cons.prems have "DecryptData_keys lib client keys c w1 = ((d, None), w')" by simp
    from Cons.IH[OF this] show ?thesis by auto
  qed
qed

text \<open>
  Claim C4. Let the input decode to the ciphertext \<open>c\<close> and the keyring be
  \<open>as @ b # rest\<close>, where every key of \<open>as\<close> fails to decrypt \<open>c\<close> and \<open>b\<close> decrypts
  it. Then \<^verbatim>\<open>DecryptData\<close> returns the plaintext that \<open>b\<close> produces, with the nil error,
  and the state it leaves is the one after the attempts with the keys of \<open>as\<close>, in their
  order in the keyring, and then with \<open>b\<close>: the keys of \<open>rest\<close> are not tried. With the
  keyring \<open>[A, B]\<close> and a ciphertext that only \<open>B\<close> decrypts, this is \<open>as = [A]\<close>.
\<close>

theorem DecryptData_first_matching_key:
  assumes "DecodeString lib (string_of_slice inData) = (c, None)"
    and "PrivateKeys client = as @ b # rest"
    and "\<forall>k\<in>set as. \<forall>w.
           snd (fst (DecryptOAEP lib (Hash client) (Reader client) k c None w)) \<noteq> None"
    and "\<forall>w. snd (fst (DecryptOAEP lib (Hash client) (Reader client) b c None w)) = None"
  shows "DecryptData lib client inData w =
    (let w1 = foldl (\<lambda>w k. snd (DecryptOAEP lib (Hash client) (Reader client) k c None w)) w as;
         r = DecryptOAEP lib (Hash client) (Reader client) b c None w1
     in ((fst (fst r), None), snd r))"
proof -
  let ?w1 = "foldl (\<lambda>w k. snd (DecryptOAEP lib (Hash client) (Reader client) k c None w)) w as"
  obtain d e w2 where r: "DecryptOAEP lib (Hash client) (Reader client) b c None ?w1 = ((d, e), w2)"
    by (cases "DecryptOAEP lib (Hash client) (Reader client) b c None ?w1") auto
  from assms(4) r have e: "e = None" by (auto dest: spec[of _ ?w1])
  have "DecryptData lib client inData w = DecryptData_keys lib client (as @ b # rest) c w"
    using assms(1,2) by (simp add: DecryptData_def)
  also have "\<dots> = DecryptData_keys lib client (b # rest) c ?w1"
    using assms(3) by (rule DecryptData_keys_skip)
  also have "\<dots> = ((d, None), w2)" using r e by simp
  finally show ?thesis using r by (simp add: Let_def)
qed

theorem DecryptData_first_matching_key_witness:
  "DecodeString sampleCrypto (string_of_slice (Some ''#Bhello'')) = (Some ''Bhello'', None) \<and>
   PrivateKeys sampleClient = [CHR ''A''] @ CHR ''B'' # [] \<and>
   snd (fst (DecryptOAEP sampleCrypto (Hash sampleClient) (Reader sampleClient) (CHR ''A'')
               (Some ''Bhello'') None 0)) \<noteq> None \<and>
   snd (fst (DecryptOAEP sampleCrypto (Hash sampleClient) (Reader sampleClient) (CHR ''B'')
               (Some ''Bhello'') None 1)) = None \<and>
   DecryptData sampleCrypto sampleClient (Some ''#Bhello'') 0 = ((Some ''hello'', None), 2)"
proof -
  have 1: "DecodeString sampleCrypto (string_of_slice (Some ''#Bhello'')) = (Some ''Bhello'', None)"
    by (simp add: sampleCrypto_def string_of_slice_def)
  have 2: "PrivateKeys sampleClient = [CHR ''A''] @ CHR ''B'' # []"
    by (simp add: sampleClient_def)
  have 3: "\<forall>k\<in>set [CHR ''A'']. \<forall>w.
     snd (fst (DecryptOAEP sampleCrypto (Hash sampleClient) (Reader sampleClient) k
                 (Some ''Bhello'') None w)) \<noteq> None"
    by (simp add: sampleCrypto_def string_of_slice_def)
  have 4: "\<forall>w. snd (fst (DecryptOAEP sampleCrypto (Hash sampleClient) (Reader sampleClient)
                 (CHR ''B'') (Some ''Bhello'') None w)) = None"
    by (simp add: sampleCrypto_def string_of_slice_def)
  have "DecryptData sampleCrypto sampleClient (Some ''#Bhello'') 0 = ((Some ''hello'', None), 2)"
    using DecryptData_first_matching_key[OF 1 2 3 4, of 0]
    by (simp add: sampleCrypto_def string_of_slice_def Let_def)
  with 1 2 3 4 show ?thesis by simp
qed

text \<open>
  Claim C5. If the codec returns an error, \<^verbatim>\<open>DecryptData\<close> returns that error with nil
  data and leaves the state as it was, which no decryption attempt does in general: no key
  is tried. If the input decodes and every key of the keyring fails, it returns the error
  built from the message \<open>failed to decrypt data due to no private key matching\<close> with nil
  data. The two errors differ. Whenever the returned error is not nil the data is nil, and
  whenever data is returned with the nil error it is the result of a successful
  \<^verbatim>\<open>rsa.DecryptOAEP\<close> of the decoded input under a key of the keyring.
\<close>

theorem DecryptData_failures:
  "(\<forall>s e. DecodeString lib (string_of_slice inData) = (s, Some e) \<longrightarrow>
      DecryptData lib client inData w = ((None, Some (LibError e)), w)) \<and>
   (\<forall>c. DecodeString lib (string_of_slice inData) = (c, None) \<and>
        (\<forall>k\<in>set (PrivateKeys client). \<forall>w'.
           snd (fst (DecryptOAEP lib (Hash client) (Reader client) k c None w')) \<noteq> None) \<longrightarrow>
      fst (DecryptData lib client inData w) =
        (None, Some (ErrorString ''failed to decrypt data due to no private key matching''))) \<and>
   (\<forall>e. (LibError e :: 'e error) \<noteq>
        ErrorString ''failed to decrypt data due to no private key matching'') \<and>
   (snd (fst (DecryptData lib client inData w)) \<noteq> None \<longrightarrow>
      fst (fst (DecryptData lib client inData w)) = None) \<and>
   (\<forall>d w'. DecryptData lib client inData w = ((d, None), w') \<longrightarrow>
      (\<exists>c k w0. DecodeString lib (string_of_slice inData) = (c, None) \<and>
         k \<in> set (PrivateKeys client) \<and>
         DecryptOAEP lib (Hash client) (Reader client) k c None w0 = ((d, None), w')))"
proof (intro conjI allI impI)
  fix s e
  assume "DecodeString lib (string_of_slice inData) = (s, Some e)"
  then show "DecryptData lib client inData w = ((None, Some (LibError e)), w)"
    by (simp add: DecryptData_def)
next
  fix c
  assume a: "DecodeString lib (string_of_slice inData) = (c, None) \<and>
        (\<forall>k\<in>set (PrivateKeys client). \<forall>w'.
           snd (fst (DecryptOAEP lib (Hash client) (Reader client) k c None w')) \<noteq> None)"
  from a have dec: "DecodeString lib (string_of_slice inData) = (c, None)" ..
  from a have fail: "\<forall>k\<in>set (PrivateKeys client). \<forall>w'.
           snd (fst (DecryptOAEP lib (Hash client) (Reader client) k c None w')) \<noteq> None" ..
  have "DecryptData lib client inData w = DecryptData_keys lib client (PrivateKeys client) c w"
    unfolding DecryptData_def dec by simp
  then show "fst (DecryptData lib client inData w) =
      (None, Some (ErrorString ''failed to decrypt data due to no private key matching''))"
    unfolding DecryptData_keys_all_fail[OF fail] by simp
next
  fix e
  show "(LibError e :: 'e error) \<noteq>
        ErrorString ''failed to decrypt data due to no private key matching''"
    by (rule error.distinct(1))
next
  assume a: "snd (fst (DecryptData lib client inData w)) \<noteq> None"
  obtain c e where d: "DecodeString lib (string_of_slice inData) = (c, e)"
    by (cases "DecodeString lib (string_of_slice inData)")
  show "fst (fst (DecryptData lib client inData w)) = None"
  proof (cases e)
    case None
    with d a show ?thesis by (simp add: DecryptData_def DecryptData_keys_error_nil)
  next
    case (Some y)
    with d show ?thesis by (simp add: DecryptData_def)
  qed
next
  fix d w'
  assume a: "DecryptData lib client inData w = ((d, None), w')"
  obtain c e where dec: "DecodeString lib (string_of_slice inData) = (c, e)"
    by (cases "DecodeString lib (string_of_slice inData)")
  show "\<exists>c k w0. DecodeString lib (string_of_slice inData) = (c, None) \<and>
         k \<in> set (PrivateKeys client) \<and>
         DecryptOAEP lib (Hash client) (Reader client) k c None w0 = ((d, None), w')"
  proof (cases e)
    case None
    with dec a have "DecryptData_keys lib client (PrivateKeys client) c w = ((d, None), w')"
      by (simp add: DecryptData_def)
    from DecryptData_keys_origin[OF this] dec None show ?thesis by blast
  next
    case (Some y)
    with dec a show ?thesis by (simp add: DecryptData_def)
  qed
qed

theorem DecryptData_failures_witness:
  "DecryptData sampleCrypto sampleClient (Some ''Bhello'') 7 =
     ((None, Some (LibError ''illegal data at input byte 0'')), 7) \<and>
   fst (DecryptData sampleCrypto sampleClient (Some ''#Chello'') 7) =
     (None, Some (ErrorString ''failed to decrypt data due to no private key matching'')) \<and>
   fst (fst (DecryptData sampleCrypto sampleClient (Some ''#Chello'') 7)) = None"
proof -
  have d1: "DecodeString sampleCrypto (string_of_slice (Some ''Bhello'')) =
      (Some [], Some ''illegal data at input byte 0'')"
    by (simp add: sampleCrypto_def string_of_slice_def)
  have d2: "DecodeString sampleCrypto (string_of_slice (Some ''#Chello'')) = (Some ''Chello'', None)"
    by (simp add: sampleCrypto_def string_of_slice_def)
  have f2: "\<forall>k\<in>set (PrivateKeys sampleClient). \<forall>w'.
      snd (fst (DecryptOAEP sampleCrypto (Hash sampleClient) (Reader sampleClient) k
                  (Some ''Chello'') None w')) \<noteq> None"
    by (simp add: sampleCrypto_def sampleClient_def string_of_slice_def)
  have 1: "DecryptData sampleCrypto sampleClient (Some ''Bhello'') 7 =
     ((None, Some (LibError ''illegal data at input byte 0'')), 7)"
    using DecryptData_failures[of sampleCrypto "Some ''Bhello''" sampleClient 7, THEN conjunct1]
      d1 by blast
  have 2: "fst (DecryptData sampleCrypto sampleClient (Some ''#Chello'') 7) =
     (None, Some (ErrorString ''failed to decrypt data due to no private key matching''))"
    using DecryptData_failures[of sampleCrypto "Some ''#Chello''" sampleClient 7,
        THEN conjunct2, THEN conjunct1] d2 f2 by blast
  from 1 2 show ?thesis by simp
qed

text \<open>
  Claim C6. \<^verbatim>\<open>rsa.EncryptOAEP\<close> rejects a message longer than the size of the public
  modulus minus twice the hash size minus 2 with nil data and an error; \<open>keySize\<close> and
  \<open>hashSize\<close> stand for \<^verbatim>\<open>pub.Size()\<close> and \<^verbatim>\<open>hash.Size()\<close>. For such a message
  \<^verbatim>\<open>EncryptData\<close> returns that error, and its data is the encoding of the nil slice, which
  holds no part of the message.
\<close>

theorem EncryptData_rejects_long_message:
  assumes "\<forall>msg w. keySize pub - 2 * hashSize (Hash client) - 2 < int (length (string_of_slice msg))
      \<longrightarrow> (\<exists>e w'. EncryptOAEP lib (Hash client) (Reader client) pub msg None w = ((None, Some e), w'))"
    and "keySize pub - 2 * hashSize (Hash client) - 2 < int (length (string_of_slice inData))"
  shows "\<exists>e w'. EncryptOAEP lib (Hash client) (Reader client) pub inData None w = ((None, Some e), w') \<and>
      EncryptData lib client inData pub w =
        ((slice_of_string (EncodeToString lib None), Some (LibError e)), w')"
proof -
  from assms obtain e w' where
    "EncryptOAEP lib (Hash client) (Reader client) pub inData None w = ((None, Some e), w')"
    by blast
  then show ?thesis by (simp add: EncryptData_def)
qed

theorem EncryptData_rejects_long_message_witness:
  "16 - 2 * int (Hash sampleClient) - 2 < int (length (string_of_slice (Some ''hello, world''))) \<and>
   EncryptData sampleCrypto sampleClient (Some ''hello, world'') (CHR ''B'') 0 =
     ((Some ''#'', Some (LibError ''message too long'')), 0)"
proof -
  have c: "\<forall>msg w. (\<lambda>k. 16) (CHR ''B'') - 2 * int (Hash sampleClient) - 2
        < int (length (string_of_slice msg))
      \<longrightarrow> (\<exists>e w'. EncryptOAEP sampleCrypto (Hash sampleClient) (Reader sampleClient) (CHR ''B'')
             msg None w = ((None, Some e), w'))"
    by (simp add: sampleCrypto_def sampleClient_def)
  have l: "(\<lambda>k. 16) (CHR ''B'') - 2 * int (Hash sampleClient) - 2
      < int (length (string_of_slice (Some ''hello, world'')))"
    by (simp add: sampleClient_def string_of_slice_def)
  from EncryptData_rejects_long_message[of "\<lambda>k. 16" "CHR ''B''" int sampleClient sampleCrypto,
      OF c l, of 0]
  obtain e w' where
    "EncryptOAEP sampleCrypto (Hash sampleClient) (Reader sampleClient) (CHR ''B'')
       (Some ''hello, world'') None 0 = ((None, Some e), w')"
    and r: "EncryptData sampleCrypto sampleClient (Some ''hello, world'') (CHR ''B'') 0 =
        ((slice_of_string (EncodeToString sampleCrypto None), Some (LibError e)), w')"
    by blast
  then have "e = ''message too long''" "w' = 0"
    by (simp_all add: sampleCrypto_def sampleClient_def string_of_slice_def)
  with r have "EncryptData sampleCrypto sampleClient (Some ''hello, world'') (CHR ''B'') 0 =
     ((Some ''#'', Some (LibError ''message too long'')), 0)"
    by (simp add: sampleCrypto_def slice_of_string_def string_of_slice_def)
  with l show ?thesis by simp
qed

text \<open>When a key of the keyring decrypts the ciphertext and no key of the keyring
  decrypts it to anything else, the loop returns that plaintext, wherever the key stands.\<close>

lemma DecryptData_keys_finds:
  assumes "priv \<in> set keys"
    and "\<forall>w. \<exists>w'. DecryptOAEP lib (Hash client) (Reader client) priv c None w = ((x, None), w')"
    and "\<forall>k\<in>set keys. \<forall>w d w'.
           DecryptOAEP lib (Hash client) (Reader client) k c None w = ((d, None), w') \<longrightarrow> d = x"
  shows "fst (DecryptData_keys lib client keys c w) = (x, None)"
  using assms(1,3)
proof (induction keys arbitrary: w)
  case Nil
  then show ?case by simp
next
  case (Cons k keys)
  obtain d e w1 where r: "DecryptOAEP lib (Hash client) (Reader client) k c None w = ((d, e), w1)"
    by (cases "DecryptOAEP lib (Hash client) (Reader client) k c None w") auto
  show ?case
  proof (cases e)
    case None
    with r Cons.prems(2) have "d = x" by fastforce
    with r None show ?thesis by simp
  next
    case (Some y)
    have "k \<noteq> priv"
    proof
      assume "k = priv"
      with assms(2) obtain w' where
        "DecryptOAEP lib (Hash client) (Reader client) k c None w = ((x, None), w')"
        by blast
      with r Some show False by simp
    qed
    with Cons.prems(1) have in_rest: "priv \<in> set keys" by simp
    from Cons.prems(2) have rest: "\<forall>k\<in>set keys. \<forall>w d w'.
           DecryptOAEP lib (Hash client) (Reader client) k c None w = ((d, None), w') \<longrightarrow> d = x"
      by simp
    from Cons.IH[OF in_rest rest, of w1] r Some show ?thesis by simp
  qed
qed

text \<open>
  Claim C1. Let \<^verbatim>\<open>rsa.EncryptOAEP\<close> succeed on the plaintext \<open>p\<close> under \<open>pub\<close> with the
  ciphertext \<open>ct\<close>, let the codec decode the encoding of \<open>ct\<close> back to \<open>ct\<close>, and let
  \<open>priv\<close> be the private key generated with \<open>pub\<close>: it decrypts \<open>ct\<close> to the bytes of
  \<open>p\<close>. If the keyring contains \<open>priv\<close>, and a decryption of \<open>ct\<close> under a key of the
  keyring that returns no error returns the bytes of \<open>p\<close> (OAEP's integrity check makes a
  key that does not match fail), then \<^verbatim>\<open>EncryptData\<close> succeeds and \<^verbatim>\<open>DecryptData\<close> on its
  result returns exactly the bytes of \<open>p\<close> with the nil error.
\<close>

theorem EncryptData_DecryptData_roundtrip:
  assumes "EncryptOAEP lib (Hash client) (Reader client) pub p None w = ((Some ct, None), w1)"
    and "DecodeString lib (EncodeToString lib (Some ct)) = (Some ct, None)"
    and "\<forall>w. \<exists>w'. DecryptOAEP lib (Hash client) (Reader client) priv (Some ct) None w =
                   ((Some (string_of_slice p), None), w')"
    and "priv \<in> set (PrivateKeys client)"
    and "\<forall>k\<in>set (PrivateKeys client). \<forall>w d w'.
           DecryptOAEP lib (Hash client) (Reader client) k (Some ct) None w = ((d, None), w')
           \<longrightarrow> d = Some (string_of_slice p)"
  shows "\<exists>d. EncryptData lib client p pub w = ((d, None), w1) \<and>
              fst (DecryptData lib client d w1) = (Some (string_of_slice p), None)"
proof -
  let ?d = "slice_of_string (EncodeToString lib (Some ct))"
  have enc: "EncryptData lib client p pub w = ((?d, None), w1)"
    using assms(1) by (simp add: EncryptData_def)
  have dec: "DecodeString lib (string_of_slice ?d) = (Some ct, None)"
    using assms(2) by (simp add: slice_of_string_def string_of_slice_def)
  have "DecryptData lib client ?d w1 =
      DecryptData_keys lib client (PrivateKeys client) (Some ct) w1"
    unfolding DecryptData_def dec by simp
  then have "fst (DecryptData lib client ?d w1) = (Some (string_of_slice p), None)"
    using DecryptData_keys_finds[OF assms(4) assms(3) assms(5), of w1] by simp
  with enc show ?thesis by blast
qed

theorem EncryptData_DecryptData_roundtrip_witness:
  "EncryptData sampleCrypto sampleClient (Some ''hello'') (CHR ''B'') 0 =
     ((Some ''#Bhello'', None), 1) \<and>
   CHR ''B'' \<in> set (PrivateKeys sampleClient) \<and>
   fst (DecryptData sampleCrypto sampleClient (Some ''#Bhello'') 1) = (Some ''hello'', None)"
proof -
  have 1: "EncryptOAEP sampleCrypto (Hash sampleClient) (Reader sampleClient) (CHR ''B'')
      (Some ''hello'') None 0 = ((Some ''Bhello'', None), 1)"
    by (simp add: sampleCrypto_def sampleClient_def string_of_slice_def)
  have 2: "DecodeString sampleCrypto (EncodeToString sampleCrypto (Some ''Bhello'')) =
      (Some ''Bhello'', None)"
    by (simp add: sampleCrypto_def string_of_slice_def)
  have 3: "\<forall>w. \<exists>w'. DecryptOAEP sampleCrypto (Hash sampleClient) (Reader sampleClient) (CHR ''B'')
      (Some ''Bhello'') None w = ((Some (string_of_slice (Some ''hello'')), None), w')"
    by (simp add: sampleCrypto_def string_of_slice_def)
  have 4: "CHR ''B'' \<in> set (PrivateKeys sampleClient)"
    by (simp add: sampleClient_def)
  have 5: "\<forall>k\<in>set (PrivateKeys sampleClient). \<forall>w d w'.
      DecryptOAEP sampleCrypto (Hash sampleClient) (Reader sampleClient) k
                   (Some ''Bhello'') None w = ((d, None), w')
      \<longrightarrow> d = Some (string_of_slice (Some ''hello''))"
    by (simp add: sampleCrypto_def sampleClient_def string_of_slice_def)
  from EncryptData_DecryptData_roundtrip[OF 1 2 3 4 5] obtain d where
    e: "EncryptData sampleCrypto sampleClient (Some ''hello'') (CHR ''B'') 0 = ((d, None), 1)"
    and r: "fst (DecryptData sampleCrypto sampleClient d 1) =
        (Some (string_of_slice (Some ''hello'')), None)"
    by blast
  have v: "EncryptData sampleCrypto sampleClient (Some ''hello'') (CHR ''B'') 0 =
     ((Some ''#Bhello'', None), 1)"
    by (simp add: EncryptData_def sampleCrypto_def sampleClient_def string_of_slice_def
        slice_of_string_def)
  from e v have "d = Some ''#Bhello''" by simp
  with r have "fst (DecryptData sampleCrypto sampleClient (Some ''#Bhello'') 1) =
      (Some ''hello'', None)"
    by (simp add: string_of_slice_def)
  with v 4 show ?thesis by simp
qed

end
